theory Spec2Isabelle
  imports Complex_Main
begin

section \<open>Configuration values\<close>

text \<open>
  The configuration handed to \<^verbatim>\<open>validate_uart_config\<close> is the Python object the
  framework built from the YAML file: scalars, lists and dictionaries with string keys.
  A dictionary is a partial map from keys to values.
\<close>

text \<open>
  A Python float is a finite binary fraction \<open>m * 2 ^ e\<close>, an infinity (with its sign)
  or not-a-number. Every double has this form; the type also holds fractions that no
  double has, which changes nothing in the comparisons below.
\<close>

datatype pyfloat =
    Finite int int
  | Infinite bool
  | NaN

datatype pyval =
    VNone
  | VBool bool
  | VInt int
  | VFloat pyfloat
  | VStr string
  | VList "pyval list"
  | VDict "string \<Rightarrow> pyval option"

type_synonym pydict = "string \<Rightarrow> pyval option"

text \<open>
  The exceptions the function body can raise: \<^verbatim>\<open>cv.Invalid\<close> with its message,
  \<^verbatim>\<open>KeyError\<close> with the missing key (from a subscript), \<^verbatim>\<open>TypeError\<close> (subscript
  of a value that is no dictionary) and \<^verbatim>\<open>AttributeError\<close> with the name of the
  missing attribute (an attribute that a module or a value does not have).
\<close>

datatype error =
    Invalid string
  | KeyError string
  | TypeError
  | AttributeError string

text \<open>Sequencing of statements that may raise: the first exception ends the run.\<close>

definition and_then :: "error + 'a \<Rightarrow> ('a \<Rightarrow> error + 'b) \<Rightarrow> error + 'b" where
  "and_then r f = (case r of Inl e \<Rightarrow> Inl e | Inr x \<Rightarrow> f x)"

text \<open>\<^verbatim>\<open>d[k]\<close> on a dictionary: the value, or \<^verbatim>\<open>KeyError\<close>.\<close>

definition dict_getitem :: "pydict \<Rightarrow> string \<Rightarrow> error + pyval" where
  "dict_getitem d k = (case d k of None \<Rightarrow> Inl (KeyError k) | Some v \<Rightarrow> Inr v)"

text \<open>\<^verbatim>\<open>v[k]\<close> with a string key \<open>k\<close>, on any value.\<close>

fun subscript :: "pyval \<Rightarrow> string \<Rightarrow> error + pyval" where
  "subscript (VDict d) k = dict_getitem d k"
| "subscript VNone k = Inl TypeError"
| "subscript (VBool b) k = Inl TypeError"
| "subscript (VInt i) k = Inl TypeError"
| "subscript (VFloat f) k = Inl TypeError"
| "subscript (VStr s) k = Inl TypeError"
| "subscript (VList xs) k = Inl TypeError"

text \<open>\<^verbatim>\<open>d.get(k, default)\<close> on a dictionary: the value, or the default. It never raises.\<close>

definition dict_get :: "pydict \<Rightarrow> string \<Rightarrow> pyval \<Rightarrow> pyval" where
  "dict_get d k dflt = (case d k of None \<Rightarrow> dflt | Some v \<Rightarrow> v)"

text \<open>
  \<^verbatim>\<open>v.get\<close>, the bound method, on any value: only dictionaries have it. Python looks
  the method up before it evaluates the arguments of the call.
\<close>

fun get_method :: "pyval \<Rightarrow> error + (string \<Rightarrow> pyval \<Rightarrow> pyval)" where
  "get_method (VDict d) = Inr (dict_get d)"
| "get_method VNone = Inl (AttributeError ''get'')"
| "get_method (VBool b) = Inl (AttributeError ''get'')"
| "get_method (VInt i) = Inl (AttributeError ''get'')"
| "get_method (VFloat f) = Inl (AttributeError ''get'')"
| "get_method (VStr s) = Inl (AttributeError ''get'')"
| "get_method (VList xs) = Inl (AttributeError ''get'')"

text \<open>
  Python compares a float with an integer by their exact values: \<^verbatim>\<open>9600.0 == 9600\<close>.
  An infinity and not-a-number equal no integer.
\<close>

fun float_eq_int :: "pyfloat \<Rightarrow> int \<Rightarrow> bool" where
  "float_eq_int (Finite m e) n =
     (if 0 \<le> e then m * 2 ^ nat e = n else m = n * 2 ^ nat (- e))"
| "float_eq_int (Infinite s) n = False"
| "float_eq_int NaN n = False"

text \<open>
  \<^verbatim>\<open>v != n\<close> for an integer literal \<open>n\<close>. Python's \<^verbatim>\<open>bool\<close> is a subclass of
  \<^verbatim>\<open>int\<close>: \<^verbatim>\<open>True == 1\<close> and \<^verbatim>\<open>False == 0\<close>. A string, a list, a dictionary and
  \<^verbatim>\<open>None\<close> are never equal to an integer.
\<close>

fun ne_int :: "pyval \<Rightarrow> int \<Rightarrow> bool" where
  "ne_int (VInt i) n = (i \<noteq> n)"
| "ne_int (VBool b) n = ((if b then 1 else 0) \<noteq> n)"
| "ne_int (VFloat f) n = (\<not> float_eq_int f n)"
| "ne_int VNone n = True"
| "ne_int (VStr s) n = True"
| "ne_int (VList xs) n = True"
| "ne_int (VDict d) n = True"

text \<open>\<^verbatim>\<open>v != s\<close> for a string literal \<open>s\<close>: only an equal string is equal.\<close>

fun ne_str :: "pyval \<Rightarrow> string \<Rightarrow> bool" where
  "ne_str (VStr s) t = (s \<noteq> t)"
| "ne_str VNone t = True"
| "ne_str (VBool b) t = True"
| "ne_str (VInt i) t = True"
| "ne_str (VFloat f) t = True"
| "ne_str (VList xs) t = True"
| "ne_str (VDict d) t = True"

section \<open>The framework's uart module\<close>

text \<open>
  \<^verbatim>\<open>validate_uart_config\<close> takes its keys from attributes of the module
  \<^verbatim>\<open>esphome.components.uart\<close>, which is not part of this source. A module is modelled
  by its namespace, a partial map from attribute names to values (the keys are strings),
  and the validator takes the namespace as a parameter. Reading an attribute that the
  module does not have raises \<^verbatim>\<open>AttributeError\<close>.
\<close>

type_synonym py_module = "string \<Rightarrow> string option"

definition getattr :: "py_module \<Rightarrow> string \<Rightarrow> error + string" where
  "getattr m name = (case m name of None \<Rightarrow> Inl (AttributeError name) | Some v \<Rightarrow> Inr v)"

text \<open>
  The namespace of the framework's module, as far as the source reads it. The module
  provides the keys of the four serial settings, and \<^verbatim>\<open>CONF_UART_ID\<close> for the
  reference to a bus; it has no attribute \<^verbatim>\<open>CONF_UART\<close>, the name that line 106 reads.
\<close>

definition esphome_uart :: py_module where
  "esphome_uart =
     [''CONF_BAUD_RATE'' \<mapsto> ''baud_rate'',
      ''CONF_DATA_BITS'' \<mapsto> ''data_bits'',
      ''CONF_PARITY'' \<mapsto> ''parity'',
      ''CONF_STOP_BITS'' \<mapsto> ''stop_bits'',
      ''CONF_UART_ID'' \<mapsto> ''uart_id'']"

section \<open>validate_uart_config (sensor.py, lines 87 to 124)\<close>

definition msg_baud_rate :: string where
  "msg_baud_rate = ''DTS6012M sensor requires 9600 baud rate''"

definition msg_data_bits :: string where
  "msg_data_bits = ''DTS6012M sensor requires 8 data bits''"

definition msg_parity :: string where
  "msg_parity = ''DTS6012M sensor requires no parity''"

definition msg_stop_bits :: string where
  "msg_stop_bits = ''DTS6012M sensor requires 1 stop bit''"

text \<open>
  The body, statement by statement, in Python's order of evaluation: in a subscript the
  attribute of the module is read before the lookup, in a call of \<^verbatim>\<open>.get\<close> the method
  is looked up before the attribute of the module is read.
\<close>

definition validate_uart_config :: "py_module \<Rightarrow> pydict \<Rightarrow> error + pydict" where
  "validate_uart_config uart config =
     and_then (getattr uart ''CONF_UART'') (\<lambda>conf_uart.
     and_then (dict_getitem config conf_uart) (\<lambda>uart_config.
     and_then (getattr uart ''CONF_BAUD_RATE'') (\<lambda>conf_baud_rate.
     and_then (subscript uart_config conf_baud_rate) (\<lambda>baud_rate.
       if ne_int baud_rate 9600 then Inl (Invalid msg_baud_rate)
       else
     and_then (get_method uart_config) (\<lambda>get.
     and_then (getattr uart ''CONF_DATA_BITS'') (\<lambda>conf_data_bits.
       if ne_int (get conf_data_bits (VInt 8)) 8 then Inl (Invalid msg_data_bits)
       else
     and_then (get_method uart_config) (\<lambda>get.
     and_then (getattr uart ''CONF_PARITY'') (\<lambda>conf_parity.
       if ne_str (get conf_parity (VStr ''NONE'')) ''NONE'' then Inl (Invalid msg_parity)
       else
     and_then (get_method uart_config) (\<lambda>get.
     and_then (getattr uart ''CONF_STOP_BITS'') (\<lambda>conf_stop_bits.
       if ne_int (get conf_stop_bits (VInt 1)) 1 then Inl (Invalid msg_stop_bits)
       else Inr config))))))))))"

section \<open>CONFIG_SCHEMA (sensor.py, lines 73 to 85)\<close>

text \<open>
  The schema is an expression over the framework's schema constructors: the sensor
  schema with its keyword arguments, extended in turn by the polling component schema
  with its default interval, by the UART device schema and by the component schema.
  The model keeps the expression as data: the base schema followed by its extensions,
  in the order of the \<^verbatim>\<open>.extend\<close> calls. The constants imported from the framework
  are kept by name.
\<close>

datatype esphome_const =
    UNIT_METER
  | ICON_ARROW_EXPAND_VERTICAL
  | DEVICE_CLASS_DISTANCE
  | STATE_CLASS_MEASUREMENT

record sensor_schema_args =
  sensor_class :: string
  unit_of_measurement :: esphome_const
  icon :: esphome_const
  accuracy_decimals :: int
  device_class :: esphome_const
  state_class :: esphome_const

datatype schema_part =
    SensorSchema sensor_schema_args
  | PollingComponentSchema string
  | UART_DEVICE_SCHEMA
  | COMPONENT_SCHEMA

definition CONFIG_SCHEMA :: "schema_part list" where
  "CONFIG_SCHEMA =
     [SensorSchema \<lparr>sensor_class = ''DTS6012MUartSensor'',
                    unit_of_measurement = UNIT_METER,
                    icon = ICON_ARROW_EXPAND_VERTICAL,
                    accuracy_decimals = 3,
                    device_class = DEVICE_CLASS_DISTANCE,
                    state_class = STATE_CLASS_MEASUREMENT\<rparr>,
      PollingComponentSchema ''60s'',
      UART_DEVICE_SCHEMA,
      COMPONENT_SCHEMA]"

text \<open>
  What a schema declares. An extension overrides what stands before it, so the
  declaration in force is the last one in the list. The contents of the framework's
  own schemas are not part of this source: the UART device schema and the component
  schema are taken to declare neither an update interval nor a unit or an accuracy, so
  that only the polling component schema declares a default update interval, and only
  the sensor schema declares the unit and the accuracy of the measurement.
\<close>

fun polling_default :: "schema_part \<Rightarrow> string option" where
  "polling_default (PollingComponentSchema d) = Some d"
| "polling_default (SensorSchema a) = None"
| "polling_default UART_DEVICE_SCHEMA = None"
| "polling_default COMPONENT_SCHEMA = None"

fun sensor_args :: "schema_part \<Rightarrow> sensor_schema_args option" where
  "sensor_args (SensorSchema a) = Some a"
| "sensor_args (PollingComponentSchema d) = None"
| "sensor_args UART_DEVICE_SCHEMA = None"
| "sensor_args COMPONENT_SCHEMA = None"

fun last_declared :: "('p \<Rightarrow> 'a option) \<Rightarrow> 'p list \<Rightarrow> 'a option" where
  "last_declared f [] = None"
| "last_declared f (p # ps) =
     (case last_declared f ps of Some x \<Rightarrow> Some x | None \<Rightarrow> f p)"

definition default_update_interval :: "schema_part list \<Rightarrow> string option" where
  "default_update_interval schema = last_declared polling_default schema"

definition declared_unit :: "schema_part list \<Rightarrow> esphome_const option" where
  "declared_unit schema = map_option unit_of_measurement (last_declared sensor_args schema)"

definition declared_accuracy :: "schema_part list \<Rightarrow> int option" where
  "declared_accuracy schema = map_option accuracy_decimals (last_declared sensor_args schema)"

text \<open>
  The key of the polling interval, as the module docstring (line 14) shows it, and the
  interval in force for a configuration: the configured value, or the schema's default
  when the configuration has none.
\<close>

definition CONF_UPDATE_INTERVAL :: string where
  "CONF_UPDATE_INTERVAL = ''update_interval''"

definition update_interval_in_force :: "schema_part list \<Rightarrow> pydict \<Rightarrow> pyval option" where
  "update_interval_in_force schema config =
     (case config CONF_UPDATE_INTERVAL of
        Some v \<Rightarrow> Some v
      | None \<Rightarrow> map_option VStr (default_update_interval schema))"

text \<open>
  A duration literal of whole seconds: decimal digits followed by the unit \<^verbatim>\<open>s\<close>.
  Literals of any other form are not read here (\<open>None\<close>).
\<close>

definition is_digit :: "char \<Rightarrow> bool" where
  "is_digit c = (48 \<le> (of_char c :: nat) \<and> (of_char c :: nat) \<le> 57)"

definition decimal :: "string \<Rightarrow> nat" where
  "decimal ds = foldl (\<lambda>n c. 10 * n + ((of_char c :: nat) - 48)) 0 ds"

definition whole_seconds :: "string \<Rightarrow> nat option" where
  "whole_seconds s =
     (if takeWhile is_digit s \<noteq> [] \<and> dropWhile is_digit s = ''s''
      then Some (decimal (takeWhile is_digit s)) else None)"

section \<open>The polling interface of the driver\<close>

text \<open>
  The driver itself is native code that the source only names
  (\<^verbatim>\<open>DTS6012MUartSensor\<close>, a polling component); its data and its polling contract are
  taken from the specification.
\<close>

text \<open>
  Modelled from the spec: the Reading record of the data model (distance in metres,
  a monotonic timestamp); the driver's native code is missing. The distance is a
  rational number here.
\<close>

record Reading =
  distanceMeters :: rat
  timestamp :: nat

text \<open>
  Modelled from the spec: the declared accuracy of a Reading's distance, fixed at
  3 decimal places; the driver's native code is missing.
\<close>

definition Reading_accuracy_decimals :: int where
  "Reading_accuracy_decimals = 3"

text \<open>
  Modelled from the spec: the DriverState record, and around it the state of the polling
  wrapper: whether a frame has been validated since the previous poll, whether the byte
  source is available, and whether its failure has been recorded; the driver's native
  code is missing.
\<close>

record DriverState =
  lastReading :: "Reading option"
  lastUpdate :: "nat option"

record Driver =
  state :: DriverState
  freshSincePoll :: bool
  sourceAvailable :: bool
  sourceFailureRecorded :: bool

text \<open>
  Modelled from the spec: what happens to the driver between two polls. A validated
  frame yields a Reading that replaces the last one; a discarded frame (checksum
  failure, truncation, oversize) leaves no trace; the byte source goes away and comes
  back.
\<close>

datatype event =
    FrameValidated Reading
  | FrameDiscarded
  | SourceLost
  | SourceRestored

fun is_validated :: "event \<Rightarrow> bool" where
  "is_validated (FrameValidated r) = True"
| "is_validated FrameDiscarded = False"
| "is_validated SourceLost = False"
| "is_validated SourceRestored = False"

fun on_event :: "Driver \<Rightarrow> event \<Rightarrow> Driver" where
  "on_event d (FrameValidated r) =
     d\<lparr>state := \<lparr>lastReading = Some r, lastUpdate = Some (timestamp r)\<rparr>,
       freshSincePoll := True\<rparr>"
| "on_event d FrameDiscarded = d"
| "on_event d SourceLost = d\<lparr>sourceAvailable := False\<rparr>"
| "on_event d SourceRestored = d\<lparr>sourceAvailable := True\<rparr>"

text \<open>
  Modelled from the spec: \<^verbatim>\<open>poll()\<close> of section 4.3; the driver's native code is
  missing. It returns the latest Reading if a frame has been validated since the
  previous poll, and none otherwise; with the byte source unavailable it returns none
  and records the condition. Every call starts a new polling period.
\<close>

definition poll :: "Driver \<Rightarrow> Reading option \<times> Driver" where
  "poll d =
     (if \<not> sourceAvailable d
      then (None, d\<lparr>freshSincePoll := False, sourceFailureRecorded := True\<rparr>)
      else if freshSincePoll d
      then (lastReading (state d), d\<lparr>freshSincePoll := False\<rparr>)
      else (None, d))"


section \<open>Configurations used as examples\<close>

text \<open>The keys are written as the module docstring (lines 16 to 22) shows them.\<close>

definition uart_9600_only :: pydict where
  "uart_9600_only = [''baud_rate'' \<mapsto> VInt 9600]"

definition uart_all_required :: pydict where
  "uart_all_required =
     [''baud_rate'' \<mapsto> VInt 9600, ''data_bits'' \<mapsto> VInt 8,
      ''parity'' \<mapsto> VStr ''NONE'', ''stop_bits'' \<mapsto> VInt 1]"

definition uart_two_deviations :: pydict where
  "uart_two_deviations =
     [''baud_rate'' \<mapsto> VInt 115200, ''data_bits'' \<mapsto> VInt 7]"

definition uart_parity_even :: pydict where
  "uart_parity_even = [''baud_rate'' \<mapsto> VInt 9600, ''parity'' \<mapsto> VStr ''EVEN'']"

definition with_uart :: "pydict \<Rightarrow> pydict" where
  "with_uart u = [''uart'' \<mapsto> VDict u]"

definition cfg_named_all_required :: pydict where
  "cfg_named_all_required =
     [''name'' \<mapsto> VStr ''Distance Sensor'', ''uart'' \<mapsto> VDict uart_all_required]"

definition cfg_named_parity_even :: pydict where
  "cfg_named_parity_even =
     [''name'' \<mapsto> VStr ''Distance Sensor'', ''uart'' \<mapsto> VDict uart_parity_even]"

definition reading_example :: Reading where
  "reading_example = \<lparr>distanceMeters = 1 / 10, timestamp = 5\<rparr>"

definition driver_example :: Driver where
  "driver_example =
     \<lparr>state = \<lparr>lastReading = Some reading_example, lastUpdate = Some 5\<rparr>,
      freshSincePoll = True, sourceAvailable = True, sourceFailureRecorded = False\<rparr>"


section \<open>The outcomes of the validator\<close>

lemmas msgs = msg_baud_rate_def msg_data_bits_def msg_parity_def msg_stop_bits_def

lemmas example_cfgs = with_uart_def uart_9600_only_def uart_all_required_def
  uart_two_deviations_def uart_parity_even_def cfg_named_all_required_def
  cfg_named_parity_even_def

subsection \<open>The comparisons and the lookups\<close>

lemma dict_get_absent: "d k = None \<Longrightarrow> dict_get d k dflt = dflt"
  by (simp add: dict_get_def)

lemma dict_get_present: "d k = Some v \<Longrightarrow> dict_get d k dflt = v"
  by (simp add: dict_get_def)

lemma ne_int_examples:
  "\<not> ne_int (VInt 9600) 9600" "\<not> ne_int (VFloat (Finite 75 7)) 9600"
  "\<not> ne_int (VFloat (Finite 19200 (- 1))) 9600" "\<not> ne_int (VBool True) 1"
  "ne_int (VInt 115200) 9600" "ne_int (VFloat (Finite 19201 (- 1))) 9600"
  "ne_int (VFloat NaN) 1" "ne_int (VStr ''8'') 8" "ne_int VNone 8"
  by simp_all

lemma ne_str_examples:
  "\<not> ne_str (VStr ''NONE'') ''NONE''" "ne_str (VStr ''EVEN'') ''NONE''"
  "ne_str (VStr ''none'') ''NONE''" "ne_str VNone ''NONE''"
  by simp_all

subsection \<open>The body from line 109 on\<close>

text \<open>
  With a module that provides all five names, and a configuration that has a dictionary
  under the key that \<^verbatim>\<open>CONF_UART\<close> names, the function subscripts the baud rate,
  reads the other three settings with their defaults, checks the four in the order of
  the source and returns the configuration when every check passes.
\<close>

lemma validate_uart_config_body:
  assumes "uart ''CONF_UART'' = Some ku" and "uart ''CONF_BAUD_RATE'' = Some kb"
    and "uart ''CONF_DATA_BITS'' = Some kd" and "uart ''CONF_PARITY'' = Some kp"
    and "uart ''CONF_STOP_BITS'' = Some ks"
    and "config ku = Some (VDict m)"
  shows "validate_uart_config uart config =
     (case m kb of
        None \<Rightarrow> Inl (KeyError kb)
      | Some b \<Rightarrow>
          if ne_int b 9600 then Inl (Invalid msg_baud_rate)
          else if ne_int (dict_get m kd (VInt 8)) 8 then Inl (Invalid msg_data_bits)
          else if ne_str (dict_get m kp (VStr ''NONE'')) ''NONE'' then Inl (Invalid msg_parity)
          else if ne_int (dict_get m ks (VInt 1)) 1 then Inl (Invalid msg_stop_bits)
          else Inr config)"
  using assms
  by (simp add: validate_uart_config_def getattr_def dict_getitem_def and_then_def
      split: option.split)

text \<open>Whatever the module provides, every accepting path returns the argument itself.\<close>

lemma and_then_Inr_iff:
  "and_then r f = Inr y \<longleftrightarrow> (\<exists>x. r = Inr x \<and> f x = Inr y)"
  by (cases r) (simp_all add: and_then_def)

lemma validate_returns_argument:
  "validate_uart_config uart config = Inr config' \<Longrightarrow> config' = config"
  unfolding validate_uart_config_def
  by (auto simp: and_then_Inr_iff split: if_splits)

subsection \<open>Line 106 with the framework's module\<close>

lemma validate_without_CONF_UART:
  "uart ''CONF_UART'' = None \<Longrightarrow>
   validate_uart_config uart config = Inl (AttributeError ''CONF_UART'')"
  by (simp add: validate_uart_config_def getattr_def and_then_def)

lemma esphome_uart_no_CONF_UART: "esphome_uart ''CONF_UART'' = None"
  by (simp add: esphome_uart_def)

text \<open>
  The framework's module has no \<^verbatim>\<open>CONF_UART\<close>: line 106 raises
  \<^verbatim>\<open>AttributeError\<close> for every configuration, before any lookup and any check.
\<close>

lemma validate_esphome_uart:
  "validate_uart_config esphome_uart config = Inl (AttributeError ''CONF_UART'')"
  by (rule validate_without_CONF_UART) (rule esphome_uart_no_CONF_UART)

text \<open>
  C1. The configuration whose uart entry has baud rate 9600, 8 data bits, parity NONE and
  1 stop bit should be returned. The function raises \<^verbatim>\<open>AttributeError\<close> on it and
  does not return it.
\<close>

theorem conforming_configuration_raises_AttributeError:
  "uart_all_required ''baud_rate'' = Some (VInt 9600)
   \<and> uart_all_required ''data_bits'' = Some (VInt 8)
   \<and> uart_all_required ''parity'' = Some (VStr ''NONE'')
   \<and> uart_all_required ''stop_bits'' = Some (VInt 1)
   \<and> validate_uart_config esphome_uart (with_uart uart_all_required)
       = Inl (AttributeError ''CONF_UART'')
   \<and> validate_uart_config esphome_uart (with_uart uart_all_required)
       \<noteq> Inr (with_uart uart_all_required)"
  by (simp add: validate_esphome_uart uart_all_required_def)

text \<open>
  C3. A uart entry with baud rate 115200 and 7 data bits deviates first in the baud
  rate, so the baud rate message of \<^verbatim>\<open>cv.Invalid\<close> is due. The function raises
  \<^verbatim>\<open>AttributeError\<close> before the first check and gives no message of a check.
\<close>

theorem deviating_baud_rate_raises_AttributeError:
  "uart_two_deviations ''baud_rate'' = Some (VInt 115200)
   \<and> ne_int (VInt 115200) 9600
   \<and> uart_two_deviations ''data_bits'' = Some (VInt 7)
   \<and> ne_int (VInt 7) 8
   \<and> validate_uart_config esphome_uart (with_uart uart_two_deviations)
       = Inl (AttributeError ''CONF_UART'')
   \<and> validate_uart_config esphome_uart (with_uart uart_two_deviations)
       \<noteq> Inl (Invalid msg_baud_rate)"
  by (simp add: validate_esphome_uart uart_two_deviations_def)


text \<open>
  C8. A uart entry that gives the baud rate 9600 and omits data bits, parity and stop
  bits should be accepted through the defaults. The function raises \<^verbatim>\<open>AttributeError\<close>
  on it before any default is read.
\<close>

theorem omitted_optional_settings_raise_AttributeError:
  "uart_9600_only ''baud_rate'' = Some (VInt 9600)
   \<and> uart_9600_only ''data_bits'' = None
   \<and> uart_9600_only ''parity'' = None
   \<and> uart_9600_only ''stop_bits'' = None
   \<and> validate_uart_config esphome_uart (with_uart uart_9600_only)
       = Inl (AttributeError ''CONF_UART'')
   \<and> validate_uart_config esphome_uart (with_uart uart_9600_only)
       \<noteq> Inr (with_uart uart_9600_only)"
  by (simp add: validate_esphome_uart uart_9600_only_def)

text \<open>
  C9. The empty configuration, and the configuration whose uart entry is an empty
  dictionary, should make the lookups of lines 106 and 109 raise \<^verbatim>\<open>KeyError\<close>. The
  function raises \<^verbatim>\<open>AttributeError\<close> on both, while reading the key of line 106 from
  the module and before any lookup in the configuration.
\<close>

theorem missing_keys_raise_AttributeError:
  "validate_uart_config esphome_uart Map.empty = Inl (AttributeError ''CONF_UART'')
   \<and> validate_uart_config esphome_uart Map.empty \<noteq> Inl (KeyError ''uart'')
   \<and> with_uart Map.empty ''uart'' = Some (VDict Map.empty)
   \<and> validate_uart_config esphome_uart (with_uart Map.empty)
       = Inl (AttributeError ''CONF_UART'')
   \<and> validate_uart_config esphome_uart (with_uart Map.empty)
       \<noteq> Inl (KeyError ''baud_rate'')"
  by (simp add: validate_esphome_uart with_uart_def)

text \<open>
  C10. Two configurations that agree on the four settings (baud rate 9600, parity EVEN,
  data bits and stop bits omitted) and differ in another entry should both raise
  \<^verbatim>\<open>cv.Invalid\<close> with the parity message. The function raises \<^verbatim>\<open>AttributeError\<close> on
  both: neither is accepted, and neither gets the message.
\<close>

theorem agreeing_configurations_raise_AttributeError:
  "with_uart uart_parity_even ''uart'' = cfg_named_parity_even ''uart''
   \<and> with_uart uart_parity_even ''name'' \<noteq> cfg_named_parity_even ''name''
   \<and> ne_str (dict_get uart_parity_even ''parity'' (VStr ''NONE'')) ''NONE''
   \<and> validate_uart_config esphome_uart (with_uart uart_parity_even)
       = Inl (AttributeError ''CONF_UART'')
   \<and> validate_uart_config esphome_uart cfg_named_parity_even
       = Inl (AttributeError ''CONF_UART'')
   \<and> validate_uart_config esphome_uart (with_uart uart_parity_even)
       \<noteq> Inl (Invalid msg_parity)
   \<and> validate_uart_config esphome_uart (with_uart uart_parity_even)
       \<noteq> Inr (with_uart uart_parity_even)"
  by (simp add: validate_esphome_uart with_uart_def cfg_named_parity_even_def
      uart_parity_even_def dict_get_def)

section \<open>What the schema declares\<close>

lemma default_update_interval_CONFIG_SCHEMA:
  "default_update_interval CONFIG_SCHEMA = Some ''60s''"
  by (simp add: default_update_interval_def CONFIG_SCHEMA_def)

lemma whole_seconds_60s: "whole_seconds ''60s'' = Some 60"
  by (simp add: whole_seconds_def is_digit_def decimal_def)

text \<open>
  C5. The default update interval that \<open>CONFIG_SCHEMA\<close> declares is the literal
  \<^verbatim>\<open>60s\<close>, which reads as 60 seconds, and it is the interval in force for every
  configuration that does not give one.
\<close>

theorem default_polling_interval_60_seconds:
  "default_update_interval CONFIG_SCHEMA = Some ''60s''
   \<and> whole_seconds ''60s'' = Some 60
   \<and> (config CONF_UPDATE_INTERVAL = None \<longrightarrow>
        update_interval_in_force CONFIG_SCHEMA config = Some (VStr ''60s''))"
  by (simp add: default_update_interval_CONFIG_SCHEMA whole_seconds_60s
      update_interval_in_force_def)

theorem default_polling_interval_60_seconds_witness:
  "update_interval_in_force CONFIG_SCHEMA (with_uart uart_9600_only) = Some (VStr ''60s'')
   \<and> with_uart uart_9600_only CONF_UPDATE_INTERVAL = None"
  using default_polling_interval_60_seconds [of "with_uart uart_9600_only"]
  by (simp add: example_cfgs CONF_UPDATE_INTERVAL_def)

text \<open>
  C6. \<open>CONFIG_SCHEMA\<close> declares the measurement with the unit meter and with an accuracy
  of 3 decimal places, the accuracy the data model fixes for the distance of a Reading.
\<close>

theorem schema_unit_meter_accuracy_3:
  "declared_unit CONFIG_SCHEMA = Some UNIT_METER
   \<and> declared_accuracy CONFIG_SCHEMA = Some 3
   \<and> declared_accuracy CONFIG_SCHEMA = Some Reading_accuracy_decimals"
  by (simp add: declared_unit_def declared_accuracy_def CONFIG_SCHEMA_def
      Reading_accuracy_decimals_def)

section \<open>Polling twice\<close>

lemma fresh_after_poll: "freshSincePoll (snd (poll d)) = False"
  by (simp add: poll_def)

lemma on_event_keeps_stale:
  "\<not> is_validated e \<Longrightarrow> \<not> freshSincePoll d \<Longrightarrow> \<not> freshSincePoll (on_event d e)"
  by (cases e) simp_all

lemma events_keep_stale:
  "\<forall>e \<in> set es. \<not> is_validated e \<Longrightarrow> \<not> freshSincePoll d \<Longrightarrow>
   \<not> freshSincePoll (foldl on_event d es)"
  by (induction es arbitrary: d) (simp_all add: on_event_keeps_stale)

lemma poll_stale: "\<not> freshSincePoll d \<Longrightarrow> fst (poll d) = None"
  by (simp add: poll_def)

text \<open>A frame validated after a poll is what the next poll returns: the model of
  \<open>poll\<close> does not answer none throughout.\<close>

lemma poll_after_frame:
  "sourceAvailable d \<Longrightarrow> fst (poll (on_event (snd (poll d)) (FrameValidated r))) = Some r"
  by (simp add: poll_def)

text \<open>
  C7. From every driver state, a poll followed by any events other than the validation
  of a frame (discarded frames, the byte source lost or restored) and then by a second
  poll returns none on the second poll.
\<close>

theorem second_poll_without_new_frame_is_none:
  assumes "\<forall>e \<in> set es. \<not> is_validated e"
  shows "fst (poll (foldl on_event (snd (poll d)) es)) = None"
  by (rule poll_stale, rule events_keep_stale [OF assms]) (simp add: fresh_after_poll)

theorem second_poll_without_new_frame_is_none_witness:
  "fst (poll driver_example) = Some reading_example
   \<and> fst (poll (foldl on_event (snd (poll driver_example))
        [FrameDiscarded, SourceLost, SourceRestored])) = None"
  using second_poll_without_new_frame_is_none
    [of "[FrameDiscarded, SourceLost, SourceRestored]" driver_example]
  by (simp add: poll_def driver_example_def)

end
